theory Spec2Isabelle
  imports Complex_Main
begin

section \<open>Shared data of the ride client\<close>

text \<open>
  The transport client (\<^verbatim>\<open>src/lib/api.ts\<close>) answers every call with the envelope
  \<^verbatim>\<open>ApiResponse<T> = {success, data, message?, timestamp}\<close>, or throws (network
  failure, or an HTTP status that is not ok, see \<^verbatim>\<open>request\<close>). The callers modelled
  here read \<^verbatim>\<open>success\<close> and \<^verbatim>\<open>data\<close> only. An awaited call is therefore
  one value of \<open>'a promise\<close>: it rejects, or it resolves to an envelope.
\<close>

record 'a ApiResponse =
  success :: bool
  data :: 'a

datatype 'a promise = Rejects | Resolves "'a ApiResponse"

text \<open>
  A JavaScript \<^verbatim>\<open>Date\<close> is its epoch time in milliseconds, or invalid
  (\<^verbatim>\<open>getTime()\<close> is NaN): \<open>None\<close>.
\<close>

type_synonym date = "int option"

text \<open>\<^verbatim>\<open>Number.prototype.toString()\<close> on an integer: its decimal digits.\<close>

fun nat_toString :: "nat \<Rightarrow> string" where
  "nat_toString n =
     (if n < 10 then [''0123456789'' ! n]
      else nat_toString (n div 10) @ [''0123456789'' ! (n mod 10)])"

declare nat_toString.simps [simp del]

definition toString :: "int \<Rightarrow> string" where
  "toString i = (if i < 0 then CHR ''-'' # nat_toString (nat (- i)) else nat_toString (nat i))"

section \<open>Alert engine: \<^verbatim>\<open>src/hooks/use-alert-system.ts\<close>\<close>

datatype alert_kind = Info | Warning | Error | Success | Emergency

datatype api_alert_kind = LocationUpdate | StatusChange | ApiEmergency | Traffic | System

datatype severity = Low | Medium | High | Critical

text \<open>The hook's \<^verbatim>\<open>Alert\<close>; \<^verbatim>\<open>type\<close> is the field \<open>kind\<close>.\<close>

record Alert =
  alert_id :: string
  message :: string
  kind :: alert_kind
  timestamp :: date
  duration :: "int option"
  rideId :: "string option"
  severity :: "severity option"

text \<open>The backend's alert record, \<^verbatim>\<open>Alert\<close> of \<^verbatim>\<open>src/lib/api.ts\<close>.\<close>

record ApiAlert =
  api_id :: string
  api_rideId :: string
  userId :: string
  api_kind :: api_alert_kind
  api_message :: string
  api_severity :: severity
  createdAt :: string
  readAt :: "string option"

text \<open>
  The state of one \<^verbatim>\<open>useAlertSystem\<close> instance: the two React states, and the
  browser's pending \<^verbatim>\<open>setTimeout\<close> calls made by \<^verbatim>\<open>addAlert\<close> (the id of the
  alert to remove, and the delay).
\<close>

record alert_state =
  alerts :: "Alert list"
  serverAlerts :: "ApiAlert list"
  timeouts :: "(string \<times> int) list"

text \<open>
  What one call of \<^verbatim>\<open>addAlert\<close> reads from its environment: \<^verbatim>\<open>Date.now()\<close>,
  the nine characters \<^verbatim>\<open>Math.random().toString(36).substr(2, 9)\<close>, and
  \<^verbatim>\<open>new Date()\<close>.
\<close>

record clock =
  date_now :: int
  random36 :: string
  new_date :: int

text \<open>
  \<^verbatim>\<open>addAlert(message, type = "info", duration = 5000)\<close>: an omitted argument is
  \<open>None\<close>. The alert is appended by a functional update of the state, a timer is set
  when \<^verbatim>\<open>duration > 0\<close>, and the new id is returned.
\<close>

definition addAlert ::
  "string option \<Rightarrow> clock \<Rightarrow> string \<Rightarrow> alert_kind option \<Rightarrow> int option \<Rightarrow> alert_state
    \<Rightarrow> string \<times> alert_state" where
  "addAlert rid c msg type_arg duration_arg s =
     (let type = (case type_arg of None \<Rightarrow> Info | Some t \<Rightarrow> t);
          d = (case duration_arg of None \<Rightarrow> 5000 | Some d \<Rightarrow> d);
          alert = \<lparr>alert_id = toString (date_now c) @ random36 c,
                   message = msg,
                   kind = type,
                   timestamp = Some (new_date c),
                   duration = Some d,
                   rideId = rid,
                   severity = None\<rparr>
      in (alert_id alert,
          s\<lparr>alerts := alerts s @ [alert],
            timeouts := (if d > 0 then timeouts s @ [(alert_id alert, d)] else timeouts s)\<rparr>))"

definition removeAlert :: "string \<Rightarrow> alert_state \<Rightarrow> alert_state" where
  "removeAlert i s = s\<lparr>alerts := filter (\<lambda>alert. alert_id alert \<noteq> i) (alerts s)\<rparr>"

text \<open>A pending timer of \<^verbatim>\<open>addAlert\<close> fires: it leaves the pending list and removes its alert.\<close>

definition timeout_fires :: "string \<times> int \<Rightarrow> alert_state \<Rightarrow> alert_state" where
  "timeout_fires t s = removeAlert (fst t) (s\<lparr>timeouts := remove1 t (timeouts s)\<rparr>)"

definition clearAllAlerts :: "alert_state \<Rightarrow> alert_state" where
  "clearAllAlerts s = s\<lparr>alerts := []\<rparr>"

text \<open>
  \<^verbatim>\<open>fetchServerAlerts\<close> of the synchronisation effect: a successful answer replaces the
  server alerts, anything else is logged only.
\<close>

definition fetchServerAlerts :: "ApiAlert list promise \<Rightarrow> alert_state \<Rightarrow> alert_state" where
  "fetchServerAlerts p s =
     (case p of
        Resolves response \<Rightarrow> if success response then s\<lparr>serverAlerts := data response\<rparr> else s
      | Rejects \<Rightarrow> s)"

text \<open>
  The requests of the two senders, as \<^verbatim>\<open>apiClient.sendAlert\<close> and
  \<^verbatim>\<open>apiClient.sendEmergencyAlert\<close> build them: the endpoint and the JSON body.
\<close>

record alert_body =
  body_rideId :: string
  body_kind :: api_alert_kind
  body_message :: string
  body_severity :: severity

datatype api_call = POST string alert_body

definition api_sendAlert :: "string \<Rightarrow> api_alert_kind \<Rightarrow> string \<Rightarrow> severity \<Rightarrow> api_call" where
  "api_sendAlert r t m sev =
     POST ''/api/v1/alerts''
       \<lparr>body_rideId = r, body_kind = t, body_message = m, body_severity = sev\<rparr>"

definition api_sendEmergencyAlert :: "string \<Rightarrow> string \<Rightarrow> api_call" where
  "api_sendEmergencyAlert r m =
     POST ''/api/v1/alerts/emergency''
       \<lparr>body_rideId = r, body_kind = ApiEmergency, body_message = m, body_severity = Critical\<rparr>"

text \<open>
  \<^verbatim>\<open>!rideId\<close>: the identifier is undefined or the empty string.
\<close>

definition no_rideId :: "string option \<Rightarrow> bool" where
  "no_rideId rid = (case rid of None \<Rightarrow> True | Some r \<Rightarrow> r = [])"

text \<open>
  \<^verbatim>\<open>sendServerAlert(message, type, severity = "medium")\<close>. The backend is the function
  \<open>backend\<close> from a request to what its promise settles to. The result is the state after
  the call has settled and the list of requests it made. Nothing touches the state before
  the \<^verbatim>\<open>await\<close>, and \<^verbatim>\<open>addAlert\<close> updates the state functionally, so \<open>s\<close> is the state at
  the moment the promise settles.
\<close>

definition sendServerAlert ::
  "string option \<Rightarrow> (api_call \<Rightarrow> ApiAlert promise) \<Rightarrow> clock \<Rightarrow> string \<Rightarrow> api_alert_kind
    \<Rightarrow> severity option \<Rightarrow> alert_state \<Rightarrow> alert_state \<times> api_call list" where
  "sendServerAlert rid backend c msg type severity_arg s =
     (if no_rideId rid then (s, [])
      else
        let sev = (case severity_arg of None \<Rightarrow> Medium | Some v \<Rightarrow> v);
            call = api_sendAlert (the rid) type msg sev
        in (case backend call of
              Resolves response \<Rightarrow>
                if success response
                then (snd (addAlert rid c msg
                             (Some (if type = ApiEmergency then Emergency else Info)) (Some 0) s),
                      [call])
                else (s, [call])
            | Rejects \<Rightarrow>
                (snd (addAlert rid c ''Failed to send alert to server'' (Some Error) None s),
                 [call])))"

definition sendEmergencyAlert ::
  "string option \<Rightarrow> (api_call \<Rightarrow> ApiAlert promise) \<Rightarrow> clock \<Rightarrow> string \<Rightarrow> alert_state
    \<Rightarrow> alert_state \<times> api_call list" where
  "sendEmergencyAlert rid backend c msg s =
     (if no_rideId rid then (s, [])
      else
        let call = api_sendEmergencyAlert (the rid) msg
        in (case backend call of
              Resolves response \<Rightarrow>
                if success response
                then (snd (addAlert rid c (''EMERGENCY: '' @ msg) (Some Emergency) (Some 0) s),
                      [call])
                else (s, [call])
            | Rejects \<Rightarrow>
                (snd (addAlert rid c ''Failed to send emergency alert'' (Some Error) None s),
                 [call])))"

text \<open>
  \<^verbatim>\<open>allAlerts\<close>, the merged view the hook returns as \<^verbatim>\<open>alerts\<close>: the local alerts, then
  one mirror of each server alert. \<open>parse\<close> is \<^verbatim>\<open>new Date(string)\<close>.
\<close>

definition mirror :: "(string \<Rightarrow> date) \<Rightarrow> ApiAlert \<Rightarrow> Alert" where
  "mirror parse serverAlert =
     \<lparr>alert_id = api_id serverAlert,
      message = api_message serverAlert,
      kind = (if api_kind serverAlert = ApiEmergency then Emergency else Info),
      timestamp = parse (createdAt serverAlert),
      duration = None,
      rideId = Some (api_rideId serverAlert),
      severity = Some (api_severity serverAlert)\<rparr>"

definition allAlerts :: "(string \<Rightarrow> date) \<Rightarrow> alert_state \<Rightarrow> Alert list" where
  "allAlerts parse s = alerts s @ map (mirror parse) (serverAlerts s)"

section \<open>Presence poller: \<^verbatim>\<open>src/hooks/use-real-time-updates.ts\<close>\<close>

text \<open>
  Modelled from the spec: the declaration of \<^verbatim>\<open>RideMember\<close> is not among the sources
  (\<^verbatim>\<open>src/lib/api.ts\<close> does not export it). The record holds the fields the dashboard
  reads (\<^verbatim>\<open>id\<close>, \<^verbatim>\<open>user\<close>, \<^verbatim>\<open>status\<close>, \<^verbatim>\<open>latitude\<close>, \<^verbatim>\<open>longitude\<close>,
  \<^verbatim>\<open>lastLocationUpdate\<close>), with the optional ones of the spec's MemberPresence as
  options: a coordinate that is \<open>None\<close> is not a number, a timestamp that is \<open>None\<close> is
  absent. Of \<^verbatim>\<open>User\<close> the record keeps the fields the dashboard reads.
\<close>

record User =
  user_id :: string
  username :: string
  email :: string
  name :: string

record RideMember =
  member_id :: string
  user :: User
  status :: string
  latitude :: "real option"
  longitude :: "real option"
  lastLocationUpdate :: "string option"

record updates_state =
  members :: "RideMember list"
  isConnected :: bool
  error :: "string option"
  lastUpdate :: date

text \<open>
  \<^verbatim>\<open>fetchUpdates\<close>, from the moment \<^verbatim>\<open>apiClient.getRideMembers(rideId)\<close> settles;
  \<open>now\<close> is \<^verbatim>\<open>new Date()\<close>.
\<close>

definition fetchUpdates :: "int \<Rightarrow> RideMember list promise \<Rightarrow> updates_state \<Rightarrow> updates_state" where
  "fetchUpdates now p s =
     (case p of
        Resolves response \<Rightarrow>
          if success response
          then s\<lparr>members := data response, lastUpdate := Some now, error := None,
                 isConnected := True\<rparr>
          else s\<lparr>error := Some ''Failed to fetch ride updates'', isConnected := False\<rparr>
      | Rejects \<Rightarrow>
          s\<lparr>error := Some ''Network error while fetching updates'', isConnected := False\<rparr>)"

text \<open>The fetch failed: the call threw, or the envelope says \<^verbatim>\<open>success = false\<close>.\<close>

definition fetch_failed :: "'a promise \<Rightarrow> bool" where
  "fetch_failed p = (case p of Rejects \<Rightarrow> True | Resolves response \<Rightarrow> \<not> success response)"

section \<open>Dashboard: anomaly detection and the members handed to the map\<close>

text \<open>
  The anomaly effect of \<^verbatim>\<open>MapDashboard\<close>. \<open>getTime\<close> is
  \<^verbatim>\<open>new Date(string).getTime()\<close>, with \<open>None\<close> for NaN (every comparison with NaN is
  false). The guard \<^verbatim>\<open>member.lastLocationUpdate && ...\<close> also fails on the empty string.
\<close>

definition is_stale :: "(string \<Rightarrow> date) \<Rightarrow> int \<Rightarrow> RideMember \<Rightarrow> bool" where
  "is_stale getTime now member =
     (case lastLocationUpdate member of
        None \<Rightarrow> False
      | Some u \<Rightarrow>
          u \<noteq> [] \<and> (case getTime u of None \<Rightarrow> False | Some t \<Rightarrow> now - t > 5 * 60 * 1000))"

definition anomaly_message :: "RideMember \<Rightarrow> string" where
  "anomaly_message member =
     ''Location anomaly: '' @ name (user member) @ '' has not updated location for over 5 minutes''"

text \<open>
  \<^verbatim>\<open>rideMembers.forEach\<close> of the effect. Each call of \<^verbatim>\<open>addAlert\<close> reads the clock
  and the random source anew: \<open>clocks k\<close> is what the \<open>k\<close>-th call of the pass reads.
\<close>

fun anomaly_forEach ::
  "(string \<Rightarrow> date) \<Rightarrow> string option \<Rightarrow> int \<Rightarrow> (nat \<Rightarrow> clock) \<Rightarrow> nat \<Rightarrow> RideMember list
    \<Rightarrow> alert_state \<Rightarrow> alert_state" where
  "anomaly_forEach getTime rid now clocks k [] s = s"
| "anomaly_forEach getTime rid now clocks k (member # rest) s =
     (if is_stale getTime now member
      then anomaly_forEach getTime rid now clocks (Suc k) rest
             (snd (addAlert rid (clocks k) (anomaly_message member) (Some Warning) (Some 10000) s))
      else anomaly_forEach getTime rid now clocks k rest s)"

definition anomaly_detection ::
  "(string \<Rightarrow> date) \<Rightarrow> string option \<Rightarrow> int \<Rightarrow> (nat \<Rightarrow> clock) \<Rightarrow> RideMember list
    \<Rightarrow> alert_state \<Rightarrow> alert_state" where
  "anomaly_detection getTime rid now clocks rideMembers s =
     (if rideMembers = [] then s else anomaly_forEach getTime rid now clocks 0 rideMembers s)"

text \<open>The \<^verbatim>\<open>members\<close> property of \<^verbatim>\<open>GoogleMap\<close>, as the dashboard builds it.\<close>

record location =
  lat :: real
  lng :: real

record Member =
  m_id :: string
  m_name :: string
  m_username :: string
  m_email :: string
  m_status :: string
  m_location :: location
  m_lastUpdate :: date

definition has_coordinates :: "RideMember \<Rightarrow> bool" where
  "has_coordinates member = (latitude member \<noteq> None \<and> longitude member \<noteq> None)"

text \<open>
  The object the \<^verbatim>\<open>map\<close> callback builds. \<open>parse\<close> is \<^verbatim>\<open>new Date(string)\<close>, and
  \<^verbatim>\<open>member.lastLocationUpdate || Date.now()\<close> takes the clock for an absent or empty
  timestamp. The callback runs after the filter, on members with both coordinates.
\<close>

definition to_map_member :: "(string \<Rightarrow> date) \<Rightarrow> int \<Rightarrow> RideMember \<Rightarrow> Member" where
  "to_map_member parse now member =
     \<lparr>m_id = member_id member,
      m_name = name (user member),
      m_username = username (user member),
      m_email = email (user member),
      m_status = status member,
      m_location = \<lparr>lat = the (latitude member), lng = the (longitude member)\<rparr>,
      m_lastUpdate =
        (case lastLocationUpdate member of
           None \<Rightarrow> Some now
         | Some u \<Rightarrow> if u = [] then Some now else parse u)\<rparr>"

definition map_members :: "(string \<Rightarrow> date) \<Rightarrow> int \<Rightarrow> RideMember list \<Rightarrow> Member list" where
  "map_members parse now rideMembers =
     map (to_map_member parse now) (filter has_coordinates rideMembers)"

section \<open>Marker reconciler: \<^verbatim>\<open>updateMarkers\<close> of \<^verbatim>\<open>GoogleMap\<close>\<close>

definition getMarkerColor :: "string \<Rightarrow> string" where
  "getMarkerColor st =
     (if st = ''arrived'' then ''#22c55e''
      else if st = ''on-route'' then ''#ea580c''
      else if st = ''waiting'' then ''#eab308''
      else ''#6b7280'')"

definition getStatusText :: "string \<Rightarrow> string" where
  "getStatusText st =
     (if st = ''arrived'' then ''Arrived''
      else if st = ''on-route'' then ''On Route''
      else if st = ''waiting'' then ''Waiting''
      else ''Unknown'')"

text \<open>
  A marker on the map: what its constructor receives and what its info window shows
  (name, user name, status text, time of the last update). Only \<open>position\<close> is ever
  written again.
\<close>

record marker =
  position :: location
  title :: string
  fillColor :: string
  info_name :: string
  info_username :: string
  info_status :: string
  info_updated :: date

definition new_marker :: "Member \<Rightarrow> marker" where
  "new_marker member =
     \<lparr>position = m_location member,
      title = m_name member,
      fillColor = getMarkerColor (m_status member),
      info_name = m_name member,
      info_username = m_username member,
      info_status = getStatusText (m_status member),
      info_updated = m_lastUpdate member\<rparr>"

text \<open>
  \<^verbatim>\<open>markersRef.current\<close> is a JavaScript \<^verbatim>\<open>Map\<close> from member id to marker: an
  association list in insertion order. Every call on the map library that
  \<^verbatim>\<open>updateMarkers\<close> makes is one \<open>marker_op\<close>:
  \<^verbatim>\<open>marker.setMap(null)\<close> with \<^verbatim>\<open>markers.delete(id)\<close>,
  \<^verbatim>\<open>existingMarker.setPosition(location)\<close>, \<^verbatim>\<open>new Marker(...)\<close> with
  \<^verbatim>\<open>markers.set(id, marker)\<close>, and \<^verbatim>\<open>map.fitBounds(bounds)\<close> with the locations the
  bounds were extended by.
\<close>

type_synonym marker_store = "(string \<times> marker) list"

datatype marker_op =
    Remove string
  | SetPosition string location
  | Create string marker
  | FitBounds "location list"

record map_state =
  mapInstance :: bool
  markers :: marker_store

definition set_position :: "string \<Rightarrow> location \<Rightarrow> marker_store \<Rightarrow> marker_store" where
  "set_position i p store =
     map (\<lambda>(k, mk). if k = i then (k, mk\<lparr>position := p\<rparr>) else (k, mk)) store"

definition is_member_id :: "Member list \<Rightarrow> string \<Rightarrow> bool" where
  "is_member_id ms i = (find (\<lambda>member. m_id member = i) ms \<noteq> None)"

text \<open>First loop: markers of ids that no member has are detached and deleted.\<close>

definition remove_absent :: "Member list \<Rightarrow> marker_store \<Rightarrow> marker_store \<times> marker_op list" where
  "remove_absent ms store =
     (filter (\<lambda>(k, mk). is_member_id ms k) store,
      map (\<lambda>(k, mk). Remove k) (filter (\<lambda>(k, mk). \<not> is_member_id ms k) store))"

text \<open>Second loop: each member's marker is moved, or created when the id has none.\<close>

fun add_or_update :: "Member list \<Rightarrow> marker_store \<Rightarrow> marker_store \<times> marker_op list" where
  "add_or_update [] store = (store, [])"
| "add_or_update (member # rest) store =
     (case map_of store (m_id member) of
        Some existingMarker \<Rightarrow>
          (let (store', ops) =
                 add_or_update rest (set_position (m_id member) (m_location member) store)
           in (store', SetPosition (m_id member) (m_location member) # ops))
      | None \<Rightarrow>
          (let (store', ops) =
                 add_or_update rest (store @ [(m_id member, new_marker member)])
           in (store', Create (m_id member) (new_marker member) # ops)))"

definition updateMarkers :: "Member list \<Rightarrow> map_state \<Rightarrow> map_state \<times> marker_op list" where
  "updateMarkers ms s =
     (if \<not> mapInstance s then (s, [])
      else
        let (store1, removed) = remove_absent ms (markers s);
            (store2, written) = add_or_update ms store1
        in (s\<lparr>markers := store2\<rparr>,
            removed @ written @ (if length ms > 0 then [FitBounds (map m_location ms)] else [])))"

text \<open>An operation that creates, moves or removes a marker.\<close>

fun is_create :: "marker_op \<Rightarrow> bool" where
  "is_create (Create i mk) = True"
| "is_create other = False"

fun is_remove :: "marker_op \<Rightarrow> bool" where
  "is_remove (Remove i) = True"
| "is_remove other = False"

fun is_update :: "marker_op \<Rightarrow> bool" where
  "is_update (SetPosition i p) = True"
| "is_update other = False"

text \<open>
  Two notions for the proofs about a second pass: the location of the last member of the
  list with a given id, and the second loop when every member already has a marker (each
  marker is moved, none is created).
\<close>

fun last_location :: "Member list \<Rightarrow> string \<Rightarrow> location option" where
  "last_location [] i = None"
| "last_location (member # rest) i =
     (case last_location rest i of
        Some l \<Rightarrow> Some l
      | None \<Rightarrow> if m_id member = i then Some (m_location member) else None)"

fun move_all :: "Member list \<Rightarrow> marker_store \<Rightarrow> marker_store" where
  "move_all [] store = store"
| "move_all (member # rest) store =
     move_all rest (set_position (m_id member) (m_location member) store)"

section \<open>Position capture: \<^verbatim>\<open>src/hooks/use-location-sync.ts\<close>\<close>

record LocationData =
  loc_latitude :: real
  loc_longitude :: real
  accuracy :: "real option"
  loc_timestamp :: string

text \<open>The \<^verbatim>\<open>coords\<close> of a \<^verbatim>\<open>GeolocationPosition\<close> that \<^verbatim>\<open>handleSuccess\<close> reads.\<close>

record GeolocationPosition =
  coords_latitude :: real
  coords_longitude :: real
  coords_accuracy :: real

datatype GeolocationPositionError = PERMISSION_DENIED | POSITION_UNAVAILABLE | TIMEOUT | OTHER_CODE

text \<open>
  The four React states of one \<^verbatim>\<open>useLocationSync\<close> instance, and what the browser
  holds for it: the \<^verbatim>\<open>getCurrentPosition\<close> requests whose callback has not run yet
  (the API has no call that cancels one), whether a \<^verbatim>\<open>watchPosition\<close> registration and
  the \<^verbatim>\<open>setInterval\<close> timer of the last effect run are alive, and the
  \<^verbatim>\<open>updateRideLocation\<close> calls that have not settled.
\<close>

record sync_state =
  isTracking :: bool
  currentLocation :: "LocationData option"
  sync_error :: "string option"
  lastSyncTime :: date
  position_requests :: nat
  watch :: bool
  syncInterval :: bool
  uploads :: nat

definition initial_sync_state :: sync_state where
  "initial_sync_state =
     \<lparr>isTracking = False, currentLocation = None, sync_error = None, lastSyncTime = None,
      position_requests = 0, watch = False, syncInterval = False, uploads = 0\<rparr>"

text \<open>
  The body of the \<^verbatim>\<open>startTracking\<close> callback; \<open>geo\<close> is
  \<^verbatim>\<open>"geolocation" in navigator\<close>. It asks for one position, registers the watch and
  sets the interval timer.
\<close>

definition startTracking :: "bool \<Rightarrow> sync_state \<Rightarrow> sync_state" where
  "startTracking geo s =
     (if \<not> geo then s\<lparr>sync_error := Some ''Geolocation is not supported by this browser''\<rparr>
      else s\<lparr>isTracking := True, sync_error := None,
             position_requests := Suc (position_requests s),
             watch := True, syncInterval := True\<rparr>)"

text \<open>The function \<^verbatim>\<open>startTracking\<close> returns: \<^verbatim>\<open>clearWatch\<close> and \<^verbatim>\<open>clearInterval\<close>.\<close>

definition cleanup :: "sync_state \<Rightarrow> sync_state" where
  "cleanup s = s\<lparr>watch := False, syncInterval := False\<rparr>"

text \<open>
  The effect with dependencies \<^verbatim>\<open>[isTracking, startTracking]\<close>. The callback
  \<^verbatim>\<open>startTracking\<close> is rebuilt when \<^verbatim>\<open>currentLocation\<close> changes, so React runs the
  effect again (the previous run's cleanup, then the body) after an update that changed
  \<^verbatim>\<open>isTracking\<close> or \<^verbatim>\<open>currentLocation\<close>: \<open>changed\<close>.
\<close>

definition effect :: "bool \<Rightarrow> bool \<Rightarrow> sync_state \<Rightarrow> sync_state" where
  "effect geo changed s =
     (if changed
      then (let s1 = cleanup s in if isTracking s1 then startTracking geo s1 else s1)
      else s)"

text \<open>The hook's \<^verbatim>\<open>startTracking: () => setIsTracking(true)\<close> and \<^verbatim>\<open>stopTracking\<close>.\<close>

definition call_startTracking :: "bool \<Rightarrow> sync_state \<Rightarrow> sync_state" where
  "call_startTracking geo s = effect geo (\<not> isTracking s) (s\<lparr>isTracking := True\<rparr>)"

definition stopTracking :: "bool \<Rightarrow> sync_state \<Rightarrow> sync_state" where
  "stopTracking geo s =
     effect geo (isTracking s \<or> currentLocation s \<noteq> None)
       (s\<lparr>isTracking := False, currentLocation := None, sync_error := None\<rparr>)"

text \<open>
  \<^verbatim>\<open>handleSuccess\<close>: the sample becomes \<^verbatim>\<open>currentLocation\<close> (a new object, so the
  effect runs again) and an upload starts. \<open>stamp\<close> is \<^verbatim>\<open>new Date().toISOString()\<close>.
\<close>

definition handleSuccess :: "bool \<Rightarrow> GeolocationPosition \<Rightarrow> string \<Rightarrow> sync_state \<Rightarrow> sync_state" where
  "handleSuccess geo pos stamp s =
     (let locationData =
            \<lparr>loc_latitude = coords_latitude pos, loc_longitude = coords_longitude pos,
             accuracy = Some (coords_accuracy pos), loc_timestamp = stamp\<rparr>
      in effect geo True (s\<lparr>currentLocation := Some locationData, uploads := Suc (uploads s)\<rparr>))"

definition handleError :: "bool \<Rightarrow> GeolocationPositionError \<Rightarrow> sync_state \<Rightarrow> sync_state" where
  "handleError geo code s =
     (let errorMessage =
            (case code of
               PERMISSION_DENIED \<Rightarrow> ''Location access denied by user''
             | POSITION_UNAVAILABLE \<Rightarrow> ''Location information unavailable''
             | TIMEOUT \<Rightarrow> ''Location request timed out''
             | OTHER_CODE \<Rightarrow> ''Unable to get location'')
      in effect geo (isTracking s) (s\<lparr>sync_error := Some errorMessage, isTracking := False\<rparr>))"

text \<open>The interval callback: the captured location, when there is one, is uploaded again.\<close>

definition interval_tick :: "sync_state \<Rightarrow> sync_state" where
  "interval_tick s = (if currentLocation s \<noteq> None then s\<lparr>uploads := Suc (uploads s)\<rparr> else s)"

text \<open>
  \<^verbatim>\<open>syncLocationToServer\<close> from the moment its request settles; \<open>now\<close> is
  \<^verbatim>\<open>new Date()\<close>.
\<close>

definition upload_settled :: "unit promise \<Rightarrow> int \<Rightarrow> sync_state \<Rightarrow> sync_state" where
  "upload_settled p now s =
     (let s1 = s\<lparr>uploads := uploads s - 1\<rparr>
      in (case p of
            Resolves response \<Rightarrow>
              if success response then s1\<lparr>lastSyncTime := Some now, sync_error := None\<rparr>
              else s1\<lparr>sync_error := Some ''Failed to sync location to server''\<rparr>
          | Rejects \<Rightarrow> s1\<lparr>sync_error := Some ''Network error while syncing location''\<rparr>))"

text \<open>
  What can happen to the hook on the event loop: its two exported calls, and the callbacks
  the browser runs. A callback can run only while its source is alive: \<open>step\<close> is
  \<open>None\<close> otherwise.
\<close>

datatype event =
    CallStartTracking
  | CallStopTracking
  | CurrentPositionSuccess GeolocationPosition string
  | CurrentPositionError GeolocationPositionError
  | WatchPositionSuccess GeolocationPosition string
  | WatchPositionError GeolocationPositionError
  | SyncIntervalTick
  | UploadSettled "unit promise" int

fun step :: "bool \<Rightarrow> event \<Rightarrow> sync_state \<Rightarrow> sync_state option" where
  "step geo CallStartTracking s = Some (call_startTracking geo s)"
| "step geo CallStopTracking s = Some (stopTracking geo s)"
| "step geo (CurrentPositionSuccess pos stamp) s =
     (if position_requests s = 0 then None
      else Some (handleSuccess geo pos stamp (s\<lparr>position_requests := position_requests s - 1\<rparr>)))"
| "step geo (CurrentPositionError code) s =
     (if position_requests s = 0 then None
      else Some (handleError geo code (s\<lparr>position_requests := position_requests s - 1\<rparr>)))"
| "step geo (WatchPositionSuccess pos stamp) s =
     (if watch s then Some (handleSuccess geo pos stamp s) else None)"
| "step geo (WatchPositionError code) s =
     (if watch s then Some (handleError geo code s) else None)"
| "step geo SyncIntervalTick s = (if syncInterval s then Some (interval_tick s) else None)"
| "step geo (UploadSettled p now) s =
     (if uploads s = 0 then None else Some (upload_settled p now s))"

fun run :: "bool \<Rightarrow> event list \<Rightarrow> sync_state \<Rightarrow> sync_state option" where
  "run geo [] s = Some s"
| "run geo (e # es) s = (case step geo e s of None \<Rightarrow> None | Some s' \<Rightarrow> run geo es s')"

section \<open>Properties of the alert engine\<close>

text \<open>
  C1 (as the code has it). \<^verbatim>\<open>addAlert\<close> has no override for the emergency category:
  an alert created with category \<^verbatim>\<open>emergency\<close> is stored with the duration the caller
  requested (5000 when the argument is omitted). Its duration is 0 exactly when the caller
  requests 0, and no timer is scheduled for it exactly when the requested duration is not
  positive.
\<close>

theorem addAlert_emergency_duration:
  "\<exists>a. alerts (snd (addAlert rid c msg (Some Emergency) d s)) = alerts s @ [a]
     \<and> kind a = Emergency
     \<and> duration a = Some (case d of None \<Rightarrow> 5000 | Some x \<Rightarrow> x)
     \<and> (duration a = Some 0) = (d = Some 0)
     \<and> (timeouts (snd (addAlert rid c msg (Some Emergency) d s)) = timeouts s)
         = (case d of None \<Rightarrow> False | Some x \<Rightarrow> x \<le> 0)"
  by (cases d) (auto simp: addAlert_def Let_def)

text \<open>
  C1 as stated fails: an emergency alert requested with duration 3000 is stored with
  duration 3000, and a timer of 3000 ms is scheduled to remove it.
\<close>

theorem addAlert_emergency_duration_counterexample:
  "kind (last (alerts (snd (addAlert None \<lparr>date_now = 0, random36 = ''k3j9x2m1q'', new_date = 0\<rparr>
       ''fire'' (Some Emergency) (Some 3000)
       \<lparr>alerts = [], serverAlerts = [], timeouts = []\<rparr>)))) = Emergency
   \<and> duration (last (alerts (snd (addAlert None \<lparr>date_now = 0, random36 = ''k3j9x2m1q'', new_date = 0\<rparr>
       ''fire'' (Some Emergency) (Some 3000)
       \<lparr>alerts = [], serverAlerts = [], timeouts = []\<rparr>)))) = Some 3000
   \<and> timeouts (snd (addAlert None \<lparr>date_now = 0, random36 = ''k3j9x2m1q'', new_date = 0\<rparr>
       ''fire'' (Some Emergency) (Some 3000)
       \<lparr>alerts = [], serverAlerts = [], timeouts = []\<rparr>)) = [(''0k3j9x2m1q'', 3000)]"
  by (simp add: addAlert_def toString_def nat_toString.simps)

text \<open>
  C2 at a rejected send. With a ride configured and a backend that answers
  \<^verbatim>\<open>success: false\<close>, \<^verbatim>\<open>sendServerAlert\<close> makes its request and leaves the alert
  state as it was: no alert of the requested category is added, and no \<^verbatim>\<open>error\<close>
  alert either (the \<^verbatim>\<open>if (response.success)\<close> has no else branch; only the
  \<^verbatim>\<open>catch\<close> adds one).
\<close>

theorem sendServerAlert_rejection_adds_nothing:
  "sendServerAlert (Some ''ride-1'') (\<lambda>call. Resolves \<lparr>success = False, data = d\<rparr>) c
     ''road closed'' Traffic None s
   = (s, [api_sendAlert ''ride-1'' Traffic ''road closed'' Medium])"
  by (simp add: sendServerAlert_def no_rideId_def)

text \<open>
  C5. \<^verbatim>\<open>sendEmergencyAlert(message)\<close> with a ride configured and a backend that
  answers \<^verbatim>\<open>success: true\<close> adds exactly one local alert: its category is
  \<^verbatim>\<open>emergency\<close>, its message is the given one after the prefix \<^verbatim>\<open>EMERGENCY: \<close>, its
  duration is 0, and no timer is scheduled. The one request made is the emergency post,
  with type \<^verbatim>\<open>emergency\<close> and severity \<^verbatim>\<open>critical\<close>.
\<close>

theorem sendEmergencyAlert_success:
  assumes "rid = Some r" and "r \<noteq> []"
    and "backend (api_sendEmergencyAlert r msg) = Resolves response" and "success response"
  shows "\<exists>a. alerts (fst (sendEmergencyAlert rid backend c msg s)) = alerts s @ [a]
     \<and> kind a = Emergency
     \<and> message a = ''EMERGENCY: '' @ msg
     \<and> duration a = Some 0
     \<and> timeouts (fst (sendEmergencyAlert rid backend c msg s)) = timeouts s
     \<and> serverAlerts (fst (sendEmergencyAlert rid backend c msg s)) = serverAlerts s
     \<and> snd (sendEmergencyAlert rid backend c msg s)
         = [POST ''/api/v1/alerts/emergency''
              \<lparr>body_rideId = r, body_kind = ApiEmergency, body_message = msg,
               body_severity = Critical\<rparr>]"
  using assms
  by (simp add: sendEmergencyAlert_def no_rideId_def addAlert_def Let_def
      api_sendEmergencyAlert_def)

theorem sendEmergencyAlert_success_witness:
  "\<exists>a. alerts (fst (sendEmergencyAlert (Some ''ride-1'')
            (\<lambda>call. Resolves \<lparr>success = True,
               data = \<lparr>api_id = ''a1'', api_rideId = ''ride-1'', userId = ''u1'',
                       api_kind = ApiEmergency, api_message = ''help'', api_severity = Critical,
                       createdAt = ''2024-01-01T00:00:00Z'', readAt = None\<rparr>\<rparr>)
            \<lparr>date_now = 0, random36 = ''k3j9x2m1q'', new_date = 0\<rparr> ''help''
            \<lparr>alerts = [], serverAlerts = [], timeouts = []\<rparr>))
        = alerts \<lparr>alerts = [], serverAlerts = [], timeouts = []\<rparr> @ [a]
     \<and> kind a = Emergency
     \<and> message a = ''EMERGENCY: '' @ ''help''
     \<and> duration a = Some 0
     \<and> timeouts (fst (sendEmergencyAlert (Some ''ride-1'')
            (\<lambda>call. Resolves \<lparr>success = True,
               data = \<lparr>api_id = ''a1'', api_rideId = ''ride-1'', userId = ''u1'',
                       api_kind = ApiEmergency, api_message = ''help'', api_severity = Critical,
                       createdAt = ''2024-01-01T00:00:00Z'', readAt = None\<rparr>\<rparr>)
            \<lparr>date_now = 0, random36 = ''k3j9x2m1q'', new_date = 0\<rparr> ''help''
            \<lparr>alerts = [], serverAlerts = [], timeouts = []\<rparr>))
        = timeouts \<lparr>alerts = [], serverAlerts = [], timeouts = []\<rparr>
     \<and> serverAlerts (fst (sendEmergencyAlert (Some ''ride-1'')
            (\<lambda>call. Resolves \<lparr>success = True,
               data = \<lparr>api_id = ''a1'', api_rideId = ''ride-1'', userId = ''u1'',
                       api_kind = ApiEmergency, api_message = ''help'', api_severity = Critical,
                       createdAt = ''2024-01-01T00:00:00Z'', readAt = None\<rparr>\<rparr>)
            \<lparr>date_now = 0, random36 = ''k3j9x2m1q'', new_date = 0\<rparr> ''help''
            \<lparr>alerts = [], serverAlerts = [], timeouts = []\<rparr>))
        = serverAlerts \<lparr>alerts = [], serverAlerts = [], timeouts = []\<rparr>
     \<and> snd (sendEmergencyAlert (Some ''ride-1'')
            (\<lambda>call. Resolves \<lparr>success = True,
               data = \<lparr>api_id = ''a1'', api_rideId = ''ride-1'', userId = ''u1'',
                       api_kind = ApiEmergency, api_message = ''help'', api_severity = Critical,
                       createdAt = ''2024-01-01T00:00:00Z'', readAt = None\<rparr>\<rparr>)
            \<lparr>date_now = 0, random36 = ''k3j9x2m1q'', new_date = 0\<rparr> ''help''
            \<lparr>alerts = [], serverAlerts = [], timeouts = []\<rparr>)
        = [POST ''/api/v1/alerts/emergency''
             \<lparr>body_rideId = ''ride-1'', body_kind = ApiEmergency, body_message = ''help'',
              body_severity = Critical\<rparr>]"
  by (rule sendEmergencyAlert_success
        [where r = "''ride-1''"
           and response = "\<lparr>success = True,
               data = \<lparr>api_id = ''a1'', api_rideId = ''ride-1'', userId = ''u1'',
                       api_kind = ApiEmergency, api_message = ''help'', api_severity = Critical,
                       createdAt = ''2024-01-01T00:00:00Z'', readAt = None\<rparr>\<rparr>"]; simp)

text \<open>
  C9. Without a ride identifier (undefined, or the empty string, which \<^verbatim>\<open>!rideId\<close>
  also rejects) both senders return at once: no request is made and the alert state is
  unchanged.
\<close>

theorem senders_without_ride:
  assumes "rid = None \<or> rid = Some []"
  shows "sendServerAlert rid backend c msg t sev s = (s, [])
     \<and> sendEmergencyAlert rid backend c' msg' s = (s, [])"
  using assms by (auto simp: sendServerAlert_def sendEmergencyAlert_def no_rideId_def)

theorem senders_without_ride_witness:
  "sendServerAlert None (\<lambda>call. Rejects) \<lparr>date_now = 0, random36 = ''k3j9x2m1q'', new_date = 0\<rparr>
       ''road closed'' Traffic None \<lparr>alerts = [], serverAlerts = [], timeouts = []\<rparr>
     = (\<lparr>alerts = [], serverAlerts = [], timeouts = []\<rparr>, [])
   \<and> sendEmergencyAlert None (\<lambda>call. Rejects)
       \<lparr>date_now = 0, random36 = ''k3j9x2m1q'', new_date = 0\<rparr> ''help''
       \<lparr>alerts = [], serverAlerts = [], timeouts = []\<rparr>
     = (\<lparr>alerts = [], serverAlerts = [], timeouts = []\<rparr>, [])"
  by (rule senders_without_ride) simp

text \<open>
  C10. \<^verbatim>\<open>clearAllAlerts\<close> empties the local alerts only: afterwards the merged view
  is exactly the mirrors of the server alerts, which is the merged view of before without
  its local part, and the server alerts are untouched.
\<close>

theorem clearAllAlerts_keeps_server_alerts:
  "allAlerts parse (clearAllAlerts s) = map (mirror parse) (serverAlerts s)
   \<and> allAlerts parse (clearAllAlerts s) = drop (length (alerts s)) (allAlerts parse s)
   \<and> serverAlerts (clearAllAlerts s) = serverAlerts s
   \<and> alerts (clearAllAlerts s) = []"
  by (simp add: allAlerts_def clearAllAlerts_def)

section \<open>Properties of the presence poller\<close>

text \<open>
  C4. A fetch that fails (the call throws, or the envelope has \<^verbatim>\<open>success = false\<close>)
  sets \<^verbatim>\<open>isConnected\<close> to false and records an error, and the member snapshot stays
  as it was. A fetch that succeeds replaces the snapshot by the data of the response and
  sets \<^verbatim>\<open>isConnected\<close> to true.
\<close>

theorem fetchUpdates_outcomes:
  "(fetch_failed p \<longrightarrow>
      \<not> isConnected (fetchUpdates now p s)
      \<and> error (fetchUpdates now p s) \<noteq> None
      \<and> members (fetchUpdates now p s) = members s)
   \<and> (\<forall>response. p = Resolves response \<and> success response \<longrightarrow>
      members (fetchUpdates now p s) = data response
      \<and> isConnected (fetchUpdates now p s)
      \<and> error (fetchUpdates now p s) = None
      \<and> lastUpdate (fetchUpdates now p s) = Some now)
   \<and> (fetch_failed p \<or> (\<exists>response. p = Resolves response \<and> success response))"
  by (cases p) (auto simp: fetch_failed_def fetchUpdates_def)

theorem fetchUpdates_outcomes_witness:
  "members (fetchUpdates 7
       (Resolves \<lparr>success = False, data = [\<lparr>member_id = ''2'',
               user = \<lparr>user_id = ''u2'', username = ''bo'', email = ''bo@x.org'', name = ''Bo''\<rparr>,
               status = ''waiting'', latitude = None, longitude = None,
               lastLocationUpdate = None\<rparr>]\<rparr>)
       \<lparr>members = [\<lparr>member_id = ''1'',
                     user = \<lparr>user_id = ''u1'', username = ''ann'', email = ''ann@x.org'', name = ''Ann''\<rparr>,
                     status = ''on-route'', latitude = Some 1, longitude = Some 2,
                     lastLocationUpdate = None\<rparr>],
        isConnected = True, error = None, lastUpdate = Some 3\<rparr>)
     = [\<lparr>member_id = ''1'',
         user = \<lparr>user_id = ''u1'', username = ''ann'', email = ''ann@x.org'', name = ''Ann''\<rparr>,
         status = ''on-route'', latitude = Some 1, longitude = Some 2,
         lastLocationUpdate = None\<rparr>]
   \<and> \<not> isConnected (fetchUpdates 7
       (Resolves \<lparr>success = False, data = [\<lparr>member_id = ''2'',
               user = \<lparr>user_id = ''u2'', username = ''bo'', email = ''bo@x.org'', name = ''Bo''\<rparr>,
               status = ''waiting'', latitude = None, longitude = None,
               lastLocationUpdate = None\<rparr>]\<rparr>)
       \<lparr>members = [\<lparr>member_id = ''1'',
                     user = \<lparr>user_id = ''u1'', username = ''ann'', email = ''ann@x.org'', name = ''Ann''\<rparr>,
                     status = ''on-route'', latitude = Some 1, longitude = Some 2,
                     lastLocationUpdate = None\<rparr>],
        isConnected = True, error = None, lastUpdate = Some 3\<rparr>)
   \<and> error (fetchUpdates 7
       (Resolves \<lparr>success = False, data = [\<lparr>member_id = ''2'',
               user = \<lparr>user_id = ''u2'', username = ''bo'', email = ''bo@x.org'', name = ''Bo''\<rparr>,
               status = ''waiting'', latitude = None, longitude = None,
               lastLocationUpdate = None\<rparr>]\<rparr>)
       \<lparr>members = [\<lparr>member_id = ''1'',
                     user = \<lparr>user_id = ''u1'', username = ''ann'', email = ''ann@x.org'', name = ''Ann''\<rparr>,
                     status = ''on-route'', latitude = Some 1, longitude = Some 2,
                     lastLocationUpdate = None\<rparr>],
        isConnected = True, error = None, lastUpdate = Some 3\<rparr>) \<noteq> None
   \<and> members (fetchUpdates 7
       (Resolves \<lparr>success = True, data = [\<lparr>member_id = ''2'',
               user = \<lparr>user_id = ''u2'', username = ''bo'', email = ''bo@x.org'', name = ''Bo''\<rparr>,
               status = ''waiting'', latitude = None, longitude = None,
               lastLocationUpdate = None\<rparr>]\<rparr>)
       \<lparr>members = [\<lparr>member_id = ''1'',
                     user = \<lparr>user_id = ''u1'', username = ''ann'', email = ''ann@x.org'', name = ''Ann''\<rparr>,
                     status = ''on-route'', latitude = Some 1, longitude = Some 2,
                     lastLocationUpdate = None\<rparr>],
        isConnected = True, error = None, lastUpdate = Some 3\<rparr>)
     = [\<lparr>member_id = ''2'',
         user = \<lparr>user_id = ''u2'', username = ''bo'', email = ''bo@x.org'', name = ''Bo''\<rparr>,
         status = ''waiting'', latitude = None, longitude = None,
         lastLocationUpdate = None\<rparr>]
   \<and> isConnected (fetchUpdates 7
       (Resolves \<lparr>success = True, data = [\<lparr>member_id = ''2'',
               user = \<lparr>user_id = ''u2'', username = ''bo'', email = ''bo@x.org'', name = ''Bo''\<rparr>,
               status = ''waiting'', latitude = None, longitude = None,
               lastLocationUpdate = None\<rparr>]\<rparr>)
       \<lparr>members = [\<lparr>member_id = ''1'',
                     user = \<lparr>user_id = ''u1'', username = ''ann'', email = ''ann@x.org'', name = ''Ann''\<rparr>,
                     status = ''on-route'', latitude = Some 1, longitude = Some 2,
                     lastLocationUpdate = None\<rparr>],
        isConnected = True, error = None, lastUpdate = Some 3\<rparr>)"
  using fetchUpdates_outcomes
      [of "Resolves \<lparr>success = False, data = [\<lparr>member_id = ''2'',
                 user = \<lparr>user_id = ''u2'', username = ''bo'', email = ''bo@x.org'', name = ''Bo''\<rparr>,
                 status = ''waiting'', latitude = None, longitude = None,
                 lastLocationUpdate = None\<rparr>]\<rparr>" 7
          "\<lparr>members = [\<lparr>member_id = ''1'',
                         user = \<lparr>user_id = ''u1'', username = ''ann'', email = ''ann@x.org'', name = ''Ann''\<rparr>,
                         status = ''on-route'', latitude = Some 1, longitude = Some 2,
                         lastLocationUpdate = None\<rparr>],
            isConnected = True, error = None, lastUpdate = Some 3\<rparr>"]
    fetchUpdates_outcomes
      [of "Resolves \<lparr>success = True, data = [\<lparr>member_id = ''2'',
                 user = \<lparr>user_id = ''u2'', username = ''bo'', email = ''bo@x.org'', name = ''Bo''\<rparr>,
                 status = ''waiting'', latitude = None, longitude = None,
                 lastLocationUpdate = None\<rparr>]\<rparr>" 7
          "\<lparr>members = [\<lparr>member_id = ''1'',
                         user = \<lparr>user_id = ''u1'', username = ''ann'', email = ''ann@x.org'', name = ''Ann''\<rparr>,
                         status = ''on-route'', latitude = Some 1, longitude = Some 2,
                         lastLocationUpdate = None\<rparr>],
            isConnected = True, error = None, lastUpdate = Some 3\<rparr>"]
  by (simp add: fetch_failed_def)

section \<open>Properties of the anomaly detector\<close>

lemma addAlert_alerts:
  "alerts (snd (addAlert rid c msg (Some k) (Some d) s))
   = alerts s @ [\<lparr>alert_id = toString (date_now c) @ random36 c, message = msg, kind = k,
                  timestamp = Some (new_date c), duration = Some d, rideId = rid,
                  severity = None\<rparr>]"
  by (simp add: addAlert_def Let_def)

lemma addAlert_timeouts:
  "timeouts (snd (addAlert rid c msg k (Some d) s))
   = timeouts s @ (if d > 0 then [(toString (date_now c) @ random36 c, d)] else [])"
  by (simp add: addAlert_def Let_def)

lemma addAlert_serverAlerts:
  "serverAlerts (snd (addAlert rid c msg k d s)) = serverAlerts s"
  by (simp add: addAlert_def Let_def)

lemma anomaly_forEach_alerts:
  "\<exists>new pending.
     alerts (anomaly_forEach getTime rid now clocks k ms s) = alerts s @ new
   \<and> map (\<lambda>a. (message a, kind a, duration a)) new
       = map (\<lambda>m. (anomaly_message m, Warning, Some 10000)) (filter (is_stale getTime now) ms)
   \<and> timeouts (anomaly_forEach getTime rid now clocks k ms s) = timeouts s @ pending
   \<and> map snd pending = map (\<lambda>m. 10000) (filter (is_stale getTime now) ms)
   \<and> map fst pending = map alert_id new
   \<and> serverAlerts (anomaly_forEach getTime rid now clocks k ms s) = serverAlerts s"
proof (induction ms arbitrary: k s)
  case Nil
  then show ?case by simp
next
  case (Cons m ms)
  show ?case
  proof (cases "is_stale getTime now m")
    case False
    then show ?thesis using Cons.IH [of k s] by simp
  next
    case True
    define s1 where "s1 = snd (addAlert rid (clocks k) (anomaly_message m) (Some Warning) (Some 10000) s)"
    obtain new pending where
      n: "alerts (anomaly_forEach getTime rid now clocks (Suc k) ms s1) = alerts s1 @ new"
        "map (\<lambda>a. (message a, kind a, duration a)) new
          = map (\<lambda>m. (anomaly_message m, Warning, Some 10000)) (filter (is_stale getTime now) ms)"
        "timeouts (anomaly_forEach getTime rid now clocks (Suc k) ms s1) = timeouts s1 @ pending"
        "map snd pending = map (\<lambda>m. 10000) (filter (is_stale getTime now) ms)"
        "map fst pending = map alert_id new"
        "serverAlerts (anomaly_forEach getTime rid now clocks (Suc k) ms s1) = serverAlerts s1"
      using Cons.IH [of "Suc k" s1] by blast
    let ?a = "\<lparr>alert_id = toString (date_now (clocks k)) @ random36 (clocks k),
               message = anomaly_message m, kind = Warning,
               timestamp = Some (new_date (clocks k)), duration = Some 10000, rideId = rid,
               severity = None\<rparr>"
    let ?t = "(toString (date_now (clocks k)) @ random36 (clocks k), 10000 :: int)"
    have a: "alerts s1 = alerts s @ [?a]"
      unfolding s1_def by (rule addAlert_alerts)
    have t: "timeouts s1 = timeouts s @ [?t]"
      unfolding s1_def by (simp add: addAlert_timeouts)
    have sa: "serverAlerts s1 = serverAlerts s"
      unfolding s1_def by (rule addAlert_serverAlerts)
    have run: "anomaly_forEach getTime rid now clocks k (m # ms) s
      = anomaly_forEach getTime rid now clocks (Suc k) ms s1"
      using True by (simp add: s1_def)
    show ?thesis
      unfolding run
      apply (rule exI [of _ "?a # new"])
      apply (rule exI [of _ "?t # pending"])
      using True n a t sa by simp
  qed
qed

text \<open>
  C8. One detection pass appends to the local alerts exactly one alert per stale member,
  in the order of the snapshot, and nothing else: each is a \<^verbatim>\<open>warning\<close> whose message
  names the member, with duration 10000, and a timer of 10000 ms is scheduled for each.
  A member is stale exactly when its timestamp is present, parses to a time, and that time
  lies more than 300000 ms (5 minutes) before \<open>now\<close>; a member with no timestamp or a
  recent one contributes nothing.
\<close>

theorem anomaly_detection_alerts:
  "(\<exists>new pending.
      alerts (anomaly_detection getTime rid now clocks ms s) = alerts s @ new
    \<and> map (\<lambda>a. (message a, kind a, duration a)) new
        = map (\<lambda>m. (anomaly_message m, Warning, Some 10000)) (filter (is_stale getTime now) ms)
    \<and> timeouts (anomaly_detection getTime rid now clocks ms s) = timeouts s @ pending
    \<and> map snd pending = map (\<lambda>m. 10000) (filter (is_stale getTime now) ms)
    \<and> map fst pending = map alert_id new)
   \<and> is_stale getTime now m
      = (\<exists>u t. lastLocationUpdate m = Some u \<and> u \<noteq> [] \<and> getTime u = Some t
           \<and> now - t > 300000)
   \<and> anomaly_message m
      = ''Location anomaly: '' @ name (user m) @ '' has not updated location for over 5 minutes''"
proof -
  have 1: "\<exists>new pending.
      alerts (anomaly_detection getTime rid now clocks ms s) = alerts s @ new
    \<and> map (\<lambda>a. (message a, kind a, duration a)) new
        = map (\<lambda>m. (anomaly_message m, Warning, Some 10000)) (filter (is_stale getTime now) ms)
    \<and> timeouts (anomaly_detection getTime rid now clocks ms s) = timeouts s @ pending
    \<and> map snd pending = map (\<lambda>m. 10000) (filter (is_stale getTime now) ms)
    \<and> map fst pending = map alert_id new"
  proof (cases "ms = []")
    case True
    then show ?thesis by (simp add: anomaly_detection_def)
  next
    case False
    then show ?thesis
      using anomaly_forEach_alerts [of getTime rid now clocks 0 ms s]
      by (simp add: anomaly_detection_def) blast
  qed
  have 2: "is_stale getTime now m
      = (\<exists>u t. lastLocationUpdate m = Some u \<and> u \<noteq> [] \<and> getTime u = Some t
           \<and> now - t > 300000)"
    by (auto simp: is_stale_def split: option.splits)
  have 3: "anomaly_message m
      = ''Location anomaly: '' @ name (user m) @ '' has not updated location for over 5 minutes''"
    by (simp add: anomaly_message_def)
  from 1 2 3 show ?thesis by blast
qed

theorem anomaly_detection_alerts_witness:
  "\<exists>new. alerts (anomaly_detection (\<lambda>u. if u = ''T0'' then Some 0 else None) None 360000
            (\<lambda>k. \<lparr>date_now = 360000, random36 = ''k3j9x2m1q'', new_date = 360000\<rparr>)
            [\<lparr>member_id = ''1'',
              user = \<lparr>user_id = ''u1'', username = ''ann'', email = ''ann@x.org'', name = ''Ann''\<rparr>,
              status = ''on-route'', latitude = Some 1, longitude = Some 2,
              lastLocationUpdate = Some ''T0''\<rparr>]
            \<lparr>alerts = [], serverAlerts = [], timeouts = []\<rparr>) = new
     \<and> map (\<lambda>a. (message a, kind a, duration a)) new
        = [(''Location anomaly: Ann has not updated location for over 5 minutes'', Warning,
            Some 10000)]"
  using anomaly_detection_alerts
    [of "\<lambda>u. if u = ''T0'' then Some 0 else None" None 360000
        "\<lambda>k. \<lparr>date_now = 360000, random36 = ''k3j9x2m1q'', new_date = 360000\<rparr>"
        "[\<lparr>member_id = ''1'',
              user = \<lparr>user_id = ''u1'', username = ''ann'', email = ''ann@x.org'', name = ''Ann''\<rparr>,
              status = ''on-route'', latitude = Some 1, longitude = Some 2,
              lastLocationUpdate = Some ''T0''\<rparr>]"
        "\<lparr>alerts = [], serverAlerts = [], timeouts = []\<rparr>"]
  by (simp add: is_stale_def anomaly_message_def)

section \<open>Properties of the marker reconciler\<close>

lemma add_or_update_Cons_fst:
  "fst (add_or_update (m # ms) store)
   = (case map_of store (m_id m) of
        Some existingMarker \<Rightarrow>
          fst (add_or_update ms (set_position (m_id m) (m_location m) store))
      | None \<Rightarrow> fst (add_or_update ms (store @ [(m_id m, new_marker m)])))"
  by (simp split: option.splits prod.splits)

lemma add_or_update_Cons_snd:
  "snd (add_or_update (m # ms) store)
   = (case map_of store (m_id m) of
        Some existingMarker \<Rightarrow>
          SetPosition (m_id m) (m_location m)
            # snd (add_or_update ms (set_position (m_id m) (m_location m) store))
      | None \<Rightarrow>
          Create (m_id m) (new_marker m)
            # snd (add_or_update ms (store @ [(m_id m, new_marker m)])))"
  by (simp split: option.splits prod.splits)

lemma add_or_update_created:
  "Create i mk \<in> set (snd (add_or_update ms store))
   \<Longrightarrow> \<exists>member \<in> set ms. i = m_id member \<and> mk = new_marker member"
proof (induction ms arbitrary: store)
  case Nil
  then show ?case by simp
next
  case (Cons m ms)
  show ?case
  proof (cases "map_of store (m_id m)")
    case None
    with Cons.prems have "(i = m_id m \<and> mk = new_marker m)
      \<or> Create i mk \<in> set (snd (add_or_update ms (store @ [(m_id m, new_marker m)])))"
      by (simp add: add_or_update_Cons_snd del: add_or_update.simps)
    then show ?thesis using Cons.IH by auto
  next
    case (Some e)
    with Cons.prems have
      "Create i mk \<in> set (snd (add_or_update ms (set_position (m_id m) (m_location m) store)))"
      by (simp add: add_or_update_Cons_snd del: add_or_update.simps)
    then show ?thesis using Cons.IH by auto
  qed
qed

lemma remove_absent_ops: "op \<in> set (snd (remove_absent ms store)) \<Longrightarrow> is_remove op"
  by (auto simp: remove_absent_def)

lemma updateMarkers_created:
  assumes "Create i mk \<in> set (snd (updateMarkers ms s))"
  shows "\<exists>member \<in> set ms. i = m_id member \<and> mk = new_marker member"
proof -
  obtain store1 removed where r: "remove_absent ms (markers s) = (store1, removed)"
    by (cases "remove_absent ms (markers s)")
  obtain store2 written where w: "add_or_update ms store1 = (store2, written)"
    by (cases "add_or_update ms store1")
  have "Create i mk \<notin> set removed"
    using remove_absent_ops [of "Create i mk" ms "markers s"] r by auto
  with assms r w have "Create i mk \<in> set written"
    by (auto simp: updateMarkers_def split: if_splits)
  then show ?thesis
    using add_or_update_created [of i mk ms store1] w by simp
qed

text \<open>
  C7. Every member handed to the map comes from a member of the snapshot whose latitude
  and longitude are both known, and carries exactly those coordinates; a member lacking a
  coordinate (in particular one lacking both) contributes nothing to the list handed over;
  and every marker \<^verbatim>\<open>updateMarkers\<close> creates from that list stands at the known
  coordinates of a member of the snapshot, never at a default location.
\<close>

theorem map_members_known_coordinates:
  "(\<forall>p \<in> set (map_members parse now rideMembers).
      \<exists>m \<in> set rideMembers. m_id p = member_id m
        \<and> latitude m = Some (lat (m_location p)) \<and> longitude m = Some (lng (m_location p)))
   \<and> (latitude m = None \<or> longitude m = None
        \<longrightarrow> map_members parse now (before @ m # after) = map_members parse now (before @ after))
   \<and> (\<forall>i mk. Create i mk \<in> set (snd (updateMarkers (map_members parse now rideMembers) s))
        \<longrightarrow> (\<exists>m \<in> set rideMembers. member_id m = i
              \<and> latitude m = Some (lat (position mk))
              \<and> longitude m = Some (lng (position mk))))"
proof -
  have 1: "\<forall>p \<in> set (map_members parse now rideMembers).
      \<exists>m \<in> set rideMembers. m_id p = member_id m
        \<and> latitude m = Some (lat (m_location p)) \<and> longitude m = Some (lng (m_location p))"
    by (auto simp: map_members_def to_map_member_def has_coordinates_def)
  have 2: "latitude m = None \<or> longitude m = None
        \<longrightarrow> map_members parse now (before @ m # after) = map_members parse now (before @ after)"
    by (auto simp: map_members_def has_coordinates_def)
  have 3: "\<exists>m \<in> set rideMembers. member_id m = i
              \<and> latitude m = Some (lat (position mk))
              \<and> longitude m = Some (lng (position mk))"
    if c: "Create i mk \<in> set (snd (updateMarkers (map_members parse now rideMembers) s))"
    for i mk
  proof -
    obtain p where p: "p \<in> set (map_members parse now rideMembers)" "i = m_id p"
      "mk = new_marker p"
      using updateMarkers_created [OF c] by blast
    with 1 obtain m where "m \<in> set rideMembers" "m_id p = member_id m"
      "latitude m = Some (lat (m_location p))" "longitude m = Some (lng (m_location p))"
      by blast
    with p show ?thesis by (auto simp: new_marker_def)
  qed
  from 1 2 3 show ?thesis by blast
qed

theorem map_members_known_coordinates_witness:
  "map_members (\<lambda>u. None) 5
     ([] @ \<lparr>member_id = ''2'',
             user = \<lparr>user_id = ''u2'', username = ''bo'', email = ''bo@x.org'', name = ''Bo''\<rparr>,
             status = ''waiting'', latitude = None, longitude = None,
             lastLocationUpdate = None\<rparr>
         # [\<lparr>member_id = ''1'',
             user = \<lparr>user_id = ''u1'', username = ''ann'', email = ''ann@x.org'', name = ''Ann''\<rparr>,
             status = ''on-route'', latitude = Some 1, longitude = Some 2,
             lastLocationUpdate = None\<rparr>])
   = [\<lparr>m_id = ''1'', m_name = ''Ann'', m_username = ''ann'', m_email = ''ann@x.org'',
       m_status = ''on-route'', m_location = \<lparr>lat = 1, lng = 2\<rparr>, m_lastUpdate = Some 5\<rparr>]
   \<and> snd (updateMarkers
       (map_members (\<lambda>u. None) 5
          [\<lparr>member_id = ''2'',
             user = \<lparr>user_id = ''u2'', username = ''bo'', email = ''bo@x.org'', name = ''Bo''\<rparr>,
             status = ''waiting'', latitude = None, longitude = None,
             lastLocationUpdate = None\<rparr>,
           \<lparr>member_id = ''1'',
             user = \<lparr>user_id = ''u1'', username = ''ann'', email = ''ann@x.org'', name = ''Ann''\<rparr>,
             status = ''on-route'', latitude = Some 1, longitude = Some 2,
             lastLocationUpdate = None\<rparr>])
       \<lparr>mapInstance = True, markers = []\<rparr>)
   = [Create ''1''
        \<lparr>position = \<lparr>lat = 1, lng = 2\<rparr>, title = ''Ann'', fillColor = ''#ea580c'',
         info_name = ''Ann'', info_username = ''ann'', info_status = ''On Route'',
         info_updated = Some 5\<rparr>,
      FitBounds [\<lparr>lat = 1, lng = 2\<rparr>]]
   \<and> (\<exists>m \<in> set [\<lparr>member_id = ''2'',
             user = \<lparr>user_id = ''u2'', username = ''bo'', email = ''bo@x.org'', name = ''Bo''\<rparr>,
             status = ''waiting'', latitude = None, longitude = None,
             lastLocationUpdate = None\<rparr>,
           \<lparr>member_id = ''1'',
             user = \<lparr>user_id = ''u1'', username = ''ann'', email = ''ann@x.org'', name = ''Ann''\<rparr>,
             status = ''on-route'', latitude = Some 1, longitude = Some 2,
             lastLocationUpdate = None\<rparr>].
         member_id m = ''1'' \<and> latitude m = Some 1 \<and> longitude m = Some 2)"
  (is "?lhs = ?handed \<and> ?ops = ?created \<and> ?known")
proof -
  let ?bo = "\<lparr>member_id = ''2'',
             user = \<lparr>user_id = ''u2'', username = ''bo'', email = ''bo@x.org'', name = ''Bo''\<rparr>,
             status = ''waiting'', latitude = None, longitude = None,
             lastLocationUpdate = None\<rparr>"
  let ?ann = "\<lparr>member_id = ''1'',
             user = \<lparr>user_id = ''u1'', username = ''ann'', email = ''ann@x.org'', name = ''Ann''\<rparr>,
             status = ''on-route'', latitude = Some 1, longitude = Some 2,
             lastLocationUpdate = None\<rparr>"
  let ?mk = "\<lparr>position = \<lparr>lat = 1, lng = 2\<rparr>, title = ''Ann'', fillColor = ''#ea580c'',
         info_name = ''Ann'', info_username = ''ann'', info_status = ''On Route'',
         info_updated = Some 5\<rparr>"
  note t = map_members_known_coordinates
    [of "\<lambda>u. None" 5 "[?bo, ?ann]" ?bo "[]" "[?ann]" "\<lparr>mapInstance = True, markers = []\<rparr>"]
  have handed: "map_members (\<lambda>u. None) 5 ([] @ [?ann]) = ?handed"
    by (simp add: map_members_def to_map_member_def has_coordinates_def)
  from t have "?lhs = map_members (\<lambda>u. None) 5 ([] @ [?ann])" by simp
  with handed have 1: "?lhs = ?handed" by simp
  have 2: "?ops = ?created"
    using handed 1
    by (simp add: updateMarkers_def remove_absent_def new_marker_def getMarkerColor_def
        getStatusText_def)
  then have "Create ''1'' ?mk \<in> set ?ops" by simp
  with t have 3: ?known by fastforce
  from 1 2 3 show ?thesis by blast
qed

lemma set_position_keys: "map fst (set_position i p store) = map fst store"
  by (induction store) (auto simp: set_position_def)

lemma set_position_key_set: "fst ` set (set_position i p store) = fst ` set store"
  using set_position_keys [of i p store] by (metis list.set_map)

lemma is_member_id_iff: "is_member_id ms i \<longleftrightarrow> i \<in> m_id ` set ms"
  by (auto simp: is_member_id_def find_None_iff)

lemma add_or_update_keys:
  "set (map fst (fst (add_or_update ms store))) = set (map fst store) \<union> m_id ` set ms"
proof (induction ms arbitrary: store)
  case Nil
  then show ?case by simp
next
  case (Cons m ms)
  show ?case
  proof (cases "map_of store (m_id m)")
    case None
    then show ?thesis
      using Cons.IH [of "store @ [(m_id m, new_marker m)]"]
      by (auto simp add: add_or_update_Cons_fst simp del: add_or_update.simps)
  next
    case (Some e)
    then have "m_id m \<in> set (map fst store)"
      by (metis map_of_eq_None_iff option.distinct(1) set_map)
    then show ?thesis
      using Some Cons.IH [of "set_position (m_id m) (m_location m) store"]
      by (auto simp add: add_or_update_Cons_fst set_position_keys simp del: add_or_update.simps)
  qed
qed

lemma add_or_update_positions:
  "(k, x) \<in> set (fst (add_or_update ms store))
   \<Longrightarrow> (case last_location ms k of Some l \<Rightarrow> position x = l | None \<Rightarrow> (k, x) \<in> set store)"
proof (induction ms arbitrary: store)
  case Nil
  then show ?case by simp
next
  case (Cons m ms)
  define store' where "store' =
    (case map_of store (m_id m) of
       Some e \<Rightarrow> set_position (m_id m) (m_location m) store
     | None \<Rightarrow> store @ [(m_id m, new_marker m)])"
  have res: "fst (add_or_update (m # ms) store) = fst (add_or_update ms store')"
    by (simp add: add_or_update_Cons_fst store'_def del: add_or_update.simps split: option.splits)
  have own: "position y = m_location m" if "(m_id m, y) \<in> set store'" for y
  proof (cases "map_of store (m_id m)")
    case None
    then have "m_id m \<notin> fst ` set store" by (simp add: map_of_eq_None_iff)
    with that None show ?thesis
      by (auto simp: store'_def new_marker_def image_iff)
  next
    case (Some e)
    with that show ?thesis by (auto simp: store'_def set_position_def split: if_splits)
  qed
  have other: "(j, y) \<in> set store" if "(j, y) \<in> set store'" "j \<noteq> m_id m" for j y
    using that by (auto simp: store'_def set_position_def split: option.splits if_splits)
  from Cons.prems have "(k, x) \<in> set (fst (add_or_update ms store'))"
    by (simp only: res)
  from Cons.IH [OF this] show ?case
    using own [of x] other [of k x]
    by (auto split: option.splits)
qed

lemma add_or_update_present:
  "m_id ` set ms \<subseteq> fst ` set store
   \<Longrightarrow> add_or_update ms store
       = (move_all ms store, map (\<lambda>m. SetPosition (m_id m) (m_location m)) ms)"
proof (induction ms arbitrary: store)
  case Nil
  then show ?case by simp
next
  case (Cons m ms)
  from Cons.prems have "map_of store (m_id m) \<noteq> None"
    by (simp add: map_of_eq_None_iff)
  then obtain e where e: "map_of store (m_id m) = Some e" by blast
  have "m_id ` set ms \<subseteq> fst ` set (set_position (m_id m) (m_location m) store)"
    using Cons.prems by (simp add: set_position_key_set)
  from Cons.IH [OF this] e show ?case by simp
qed

lemma move_all_closed:
  "move_all ms store
   = map (\<lambda>(k, x). (k, case last_location ms k of Some l \<Rightarrow> x\<lparr>position := l\<rparr> | None \<Rightarrow> x)) store"
proof (induction ms arbitrary: store)
  case Nil
  then show ?case by simp
next
  case (Cons m ms)
  show ?case
    by (simp add: Cons.IH set_position_def) (auto split: option.splits)
qed

lemma move_all_after_pass:
  "move_all ms (fst (add_or_update ms store)) = fst (add_or_update ms store)"
proof -
  have "(case last_location ms k of Some l \<Rightarrow> x\<lparr>position := l\<rparr> | None \<Rightarrow> x) = x"
    if "(k, x) \<in> set (fst (add_or_update ms store))" for k x
    using add_or_update_positions [OF that] by (auto split: option.splits)
  then show ?thesis
    unfolding move_all_closed by (intro map_idI) auto
qed

lemma remove_absent_none:
  "fst ` set store \<subseteq> m_id ` set ms \<Longrightarrow> remove_absent ms store = (store, [])"
  by (auto simp: remove_absent_def is_member_id_iff filter_empty_conv intro!: filter_True)

lemma remove_absent_keys: "fst ` set (fst (remove_absent ms store)) \<subseteq> m_id ` set ms"
  by (auto simp: remove_absent_def is_member_id_iff)

text \<open>
  The association list stays a JavaScript \<^verbatim>\<open>Map\<close>: a pass keeps the keys distinct.
\<close>

lemma add_or_update_distinct:
  "distinct (map fst store) \<Longrightarrow> distinct (map fst (fst (add_or_update ms store)))"
proof (induction ms arbitrary: store)
  case Nil
  then show ?case by simp
next
  case (Cons m ms)
  show ?case
  proof (cases "map_of store (m_id m)")
    case None
    then have "m_id m \<notin> fst ` set store" by (simp add: map_of_eq_None_iff)
    with Cons.prems have "distinct (map fst (store @ [(m_id m, new_marker m)]))" by simp
    from Cons.IH [OF this] None show ?thesis
      by (simp add: add_or_update_Cons_fst del: add_or_update.simps)
  next
    case (Some e)
    from Cons.prems have "distinct (map fst (set_position (m_id m) (m_location m) store))"
      by (simp add: set_position_keys)
    from Cons.IH [OF this] Some show ?thesis
      by (simp add: add_or_update_Cons_fst del: add_or_update.simps)
  qed
qed

lemma updateMarkers_markers:
  "markers (fst (updateMarkers ms s))
   = (if mapInstance s then fst (add_or_update ms (fst (remove_absent ms (markers s))))
      else markers s)"
  by (simp add: updateMarkers_def split: prod.splits)

lemma updateMarkers_distinct:
  "distinct (map fst (markers s)) \<Longrightarrow> distinct (map fst (markers (fst (updateMarkers ms s))))"
proof -
  assume d: "distinct (map fst (markers s))"
  have "distinct (map fst (fst (remove_absent ms (markers s))))"
    using d by (simp add: remove_absent_def distinct_map_filter)
  from add_or_update_distinct [OF this, of ms] d show ?thesis
    by (simp add: updateMarkers_markers)
qed

text \<open>
  C3 (as the code has it). A second pass of \<^verbatim>\<open>updateMarkers\<close> over the same member
  list leaves the marker set exactly as the first pass left it, and creates and removes
  no marker. It is not free of operations: it calls \<^verbatim>\<open>setPosition\<close> once for every
  member of the list, and \<^verbatim>\<open>fitBounds\<close> when the list is not empty. (Before the map
  is initialised both passes do nothing.)
\<close>

theorem updateMarkers_second_pass:
  "fst (updateMarkers ms (fst (updateMarkers ms s))) = fst (updateMarkers ms s)
   \<and> snd (updateMarkers ms (fst (updateMarkers ms s)))
       = (if mapInstance s
          then map (\<lambda>m. SetPosition (m_id m) (m_location m)) ms
                 @ (if ms = [] then [] else [FitBounds (map m_location ms)])
          else [])
   \<and> filter is_create (snd (updateMarkers ms (fst (updateMarkers ms s)))) = []
   \<and> filter is_remove (snd (updateMarkers ms (fst (updateMarkers ms s)))) = []"
proof (cases "mapInstance s")
  case False
  then show ?thesis by (simp add: updateMarkers_def)
next
  case True
  define store1 where "store1 = fst (remove_absent ms (markers s))"
  define store2 where "store2 = fst (add_or_update ms store1)"
  have first: "fst (updateMarkers ms s) = s\<lparr>markers := store2\<rparr>"
    using True by (simp add: updateMarkers_def store1_def store2_def split: prod.splits)
  have keys2: "fst ` set store2 = fst ` set store1 \<union> m_id ` set ms"
    using add_or_update_keys [of ms store1] by (simp add: store2_def)
  have "fst ` set store1 \<subseteq> m_id ` set ms"
    unfolding store1_def by (rule remove_absent_keys)
  with keys2 have sub: "fst ` set store2 \<subseteq> m_id ` set ms" and sup: "m_id ` set ms \<subseteq> fst ` set store2"
    by auto
  have r: "remove_absent ms store2 = (store2, [])"
    using sub by (rule remove_absent_none)
  have a: "add_or_update ms store2
    = (store2, map (\<lambda>m. SetPosition (m_id m) (m_location m)) ms)"
    using add_or_update_present [OF sup] move_all_after_pass [of ms store1]
    by (simp add: store2_def)
  have second: "updateMarkers ms (s\<lparr>markers := store2\<rparr>)
    = (s\<lparr>markers := store2\<rparr>,
       map (\<lambda>m. SetPosition (m_id m) (m_location m)) ms
         @ (if ms = [] then [] else [FitBounds (map m_location ms)]))"
    using True r a by (simp add: updateMarkers_def)
  show ?thesis
    using True by (simp add: first second)
qed

text \<open>
  C3 as stated fails: with one member, the second pass over the unchanged list performs the
  update operation \<^verbatim>\<open>setPosition\<close> on that member's marker.
\<close>

theorem updateMarkers_second_pass_counterexample:
  "snd (updateMarkers
     [\<lparr>m_id = ''1'', m_name = ''Ann'', m_username = ''ann'', m_email = ''ann@x.org'',
       m_status = ''on-route'', m_location = \<lparr>lat = 1, lng = 2\<rparr>, m_lastUpdate = Some 5\<rparr>]
     (fst (updateMarkers
        [\<lparr>m_id = ''1'', m_name = ''Ann'', m_username = ''ann'', m_email = ''ann@x.org'',
          m_status = ''on-route'', m_location = \<lparr>lat = 1, lng = 2\<rparr>, m_lastUpdate = Some 5\<rparr>]
        \<lparr>mapInstance = True, markers = []\<rparr>)))
   = [SetPosition ''1'' \<lparr>lat = 1, lng = 2\<rparr>, FitBounds [\<lparr>lat = 1, lng = 2\<rparr>]]
   \<and> is_update (SetPosition ''1'' \<lparr>lat = 1, lng = 2\<rparr>)"
  by (simp add: updateMarkers_def remove_absent_def is_member_id_def set_position_def)

section \<open>Properties of position capture\<close>

text \<open>
  C6 at a stop with a position request in flight. Tracking starts (one
  \<^verbatim>\<open>getCurrentPosition\<close> request is made), \<^verbatim>\<open>stopTracking\<close> is called before its
  callback runs, and then the request succeeds. After the stop the state is cleared and the
  watch and the interval are cancelled, but the request is still pending; its callback
  \<^verbatim>\<open>handleSuccess\<close> then sets \<^verbatim>\<open>currentLocation\<close> again and starts an upload,
  while \<^verbatim>\<open>isTracking\<close> stays false.
\<close>

theorem stop_then_position_callback:
  "run True
     [CallStartTracking, CallStopTracking,
      CurrentPositionSuccess
        \<lparr>coords_latitude = 1, coords_longitude = 2, coords_accuracy = 5\<rparr>
        ''2024-01-01T00:00:00.000Z'']
     initial_sync_state
   = Some \<lparr>isTracking = False,
           currentLocation =
             Some \<lparr>loc_latitude = 1, loc_longitude = 2, accuracy = Some 5,
                   loc_timestamp = ''2024-01-01T00:00:00.000Z''\<rparr>,
           sync_error = None, lastSyncTime = None, position_requests = 0, watch = False,
           syncInterval = False, uploads = Suc 0\<rparr>
   \<and> run True [CallStartTracking, CallStopTracking] initial_sync_state
   = Some \<lparr>isTracking = False, currentLocation = None, sync_error = None,
           lastSyncTime = None, position_requests = Suc 0, watch = False,
           syncInterval = False, uploads = 0\<rparr>"
  by (simp add: initial_sync_state_def call_startTracking_def stopTracking_def
      handleSuccess_def effect_def cleanup_def startTracking_def Let_def)

text \<open>
  What does hold after a stop: no callback sets \<^verbatim>\<open>isTracking\<close> again, and when no
  position request is pending and no watch is registered, uploads that settle and interval
  ticks leave \<^verbatim>\<open>currentLocation\<close> empty.
\<close>

lemma step_keeps_stopped:
  "step geo e s = Some s' \<Longrightarrow> e \<noteq> CallStartTracking \<Longrightarrow> \<not> isTracking s \<Longrightarrow> \<not> isTracking s'"
  by (cases e)
     (auto simp: stopTracking_def handleSuccess_def handleError_def interval_tick_def
        upload_settled_def effect_def cleanup_def startTracking_def Let_def
        split: if_splits promise.splits)

lemma run_keeps_stopped:
  "run geo es s = Some s' \<Longrightarrow> CallStartTracking \<notin> set es \<Longrightarrow> \<not> isTracking s
   \<Longrightarrow> \<not> isTracking s'"
proof (induction es arbitrary: s)
  case Nil
  then show ?case by simp
next
  case (Cons e es)
  then obtain s1 where s1: "step geo e s = Some s1" "run geo es s1 = Some s'"
    by (auto split: option.splits)
  have "\<not> isTracking s1"
    using step_keeps_stopped [OF s1(1)] Cons.prems by auto
  then show ?case using Cons.IH [OF s1(2)] Cons.prems by auto
qed

lemma stopTracking_clears:
  "\<not> isTracking (stopTracking geo s) \<and> currentLocation (stopTracking geo s) = None
   \<and> sync_error (stopTracking geo s) = None
   \<and> uploads (stopTracking geo s) = uploads s
   \<and> position_requests (stopTracking geo s) = position_requests s"
  by (simp add: stopTracking_def effect_def cleanup_def Let_def)

lemma step_keeps_location_empty:
  "step geo e s = Some s' \<Longrightarrow> e \<noteq> CallStartTracking
   \<Longrightarrow> \<not> isTracking s \<and> currentLocation s = None \<and> position_requests s = 0 \<and> \<not> watch s
   \<Longrightarrow> \<not> isTracking s' \<and> currentLocation s' = None \<and> position_requests s' = 0 \<and> \<not> watch s'"
  by (cases e)
     (auto simp: stopTracking_def handleSuccess_def handleError_def interval_tick_def
        upload_settled_def effect_def cleanup_def startTracking_def Let_def
        split: if_splits promise.splits)

lemma run_keeps_location_empty:
  "run geo es s = Some s' \<Longrightarrow> CallStartTracking \<notin> set es
   \<Longrightarrow> \<not> isTracking s \<and> currentLocation s = None \<and> position_requests s = 0 \<and> \<not> watch s
   \<Longrightarrow> \<not> isTracking s' \<and> currentLocation s' = None"
proof (induction es arbitrary: s)
  case Nil
  then show ?case by simp
next
  case (Cons e es)
  then obtain s1 where s1: "step geo e s = Some s1" "run geo es s1 = Some s'"
    by (auto split: option.splits)
  have "\<not> isTracking s1 \<and> currentLocation s1 = None \<and> position_requests s1 = 0 \<and> \<not> watch s1"
    using step_keeps_location_empty [OF s1(1)] Cons.prems by auto
  then show ?case using Cons.IH [OF s1(2)] Cons.prems by auto
qed

end
